theory Spec2Isabelle
  imports Main "HOL-Library.Word" "HOL-Library.Signed_Division"
begin

unbundle bit_operations_syntax

section \<open>sdcardfs super operations (fs/sdcardfs/super.c)\<close>

text \<open>
  A shallow embedding of the super-block operations of sdcardfs: the statistics filter
  \<open>sdcardfs_statfs\<close>, \<open>sdcardfs_remount_fs\<close>, the inode life cycle
  (\<open>sdcardfs_alloc_inode\<close>, \<open>sdcardfs_evict_inode\<close>, \<open>sdcardfs_destroy_inode\<close>) and the two
  propagation callbacks \<open>sdcardfs_propagate_unlink\<close> and \<open>sdcardfs_propagate_rename\<close>.

  Integer statuses (\<open>int err\<close>, \<open>long ret\<close>) are only copied, never computed with, so they
  are HOL integers. Quantities the code computes with are words of the C type's width.
\<close>

subsection \<open>C types and constants\<close>

type_synonym u32 = "32 word"
type_synonym u64 = "64 word"

text \<open>\<open>long\<close> on the 64-bit (LP64) ARM targets of this kernel tree.\<close>
type_synonym long = "64 word"

text \<open>include/uapi/asm-generic/errno-base.h\<close>

definition ENOMEM :: int where
  "ENOMEM = 12"

definition EINVAL :: int where
  "EINVAL = 22"

text \<open>include/uapi/linux/limits.h\<close>

definition PATH_MAX :: nat where
  "PATH_MAX = 4096"

text \<open>include/uapi/linux/fs.h: the mount flags named by \<open>sdcardfs_remount_fs\<close>.\<close>

definition MS_RDONLY :: u32 where
  "MS_RDONLY = 1"

definition MS_MANDLOCK :: u32 where
  "MS_MANDLOCK = 64"

definition MS_SILENT :: u32 where
  "MS_SILENT = 32768"

subsection \<open>Mount state\<close>

text \<open>
  Modelled from the spec: the enumeration \<open>type_t\<close> is declared in sdcardfs.h. The source
  names \<open>TYPE_NONE\<close>, \<open>TYPE_DEFAULT\<close>, \<open>TYPE_READ\<close> and \<open>TYPE_WRITE\<close>; the specification lists
  \<open>{NONE, DEFAULT, READ, WRITE, FULL-or-other}\<close>, and \<open>TYPE_FULL\<close> stands for every value that
  is none of the four named ones.
\<close>

datatype type_t = TYPE_NONE | TYPE_DEFAULT | TYPE_READ | TYPE_WRITE | TYPE_FULL

text \<open>
  \<open>struct sdcardfs_mount_options\<close>, with the fields super.c reads. All numeric options are
  printed with \<open>%u\<close> by \<open>sdcardfs_show_options\<close>: they are \<open>unsigned int\<close>. The field \<open>label\<close>
  holds the characters that \<open>%s\<close> prints for \<open>options.label\<close>.
\<close>

record sdcardfs_mount_options =
  fs_low_uid :: u32
  fs_low_gid :: u32
  sdfs_gid :: u32
  sdfs_mask :: u32
  multi_user :: u32
  reserved_mb :: u32
  label :: string
  type :: type_t

record sdcardfs_sb_info =
  options :: sdcardfs_mount_options

text \<open>\<open>struct super_block\<close>: \<open>s_fs_info\<close> is the pointer \<open>SDCARDFS_SB\<close> reads, \<open>None\<close> when null.\<close>

record super_block =
  s_fs_info :: "sdcardfs_sb_info option"

subsection \<open>sdcardfs_statfs\<close>

text \<open>
  \<open>struct kstatfs\<close> (include/linux/statfs.h), with the fields \<open>sdcardfs_statfs\<close> touches:
  \<open>f_type\<close> and \<open>f_bsize\<close> are \<open>long\<close>, the three block counts are \<open>u64\<close>.
\<close>

record kstatfs =
  f_type :: long
  f_bsize :: long
  f_blocks :: u64
  f_bfree :: u64
  f_bavail :: u64

text \<open>C division of two \<open>long\<close> values: the quotient is truncated towards zero.\<close>

definition c_div_long :: "long \<Rightarrow> long \<Rightarrow> long" where
  "c_div_long a b = word_of_int (sint a sdiv sint b)"

text \<open>
  \<open>min_blocks = ((sbi->options.reserved_mb * 1024 * 1024)/buf->f_bsize);\<close>
  The product is computed in \<open>unsigned int\<close> (it wraps at \<open>2 ^ 32\<close>), converted to \<open>long\<close> for
  the division by \<open>f_bsize\<close>, and the quotient is stored in the \<open>u32\<close> variable.
\<close>

definition min_blocks_of :: "u32 \<Rightarrow> long \<Rightarrow> u32" where
  "min_blocks_of r bsize = ucast (c_div_long (ucast (r * 1024 * 1024)) bsize)"

text \<open>
  The function takes the backing query \<open>vfs_statfs\<close> on the lower path (status and filled
  buffer) and the constant \<open>SDCARDFS_SUPER_MAGIC\<close> (include/uapi/linux/magic.h) as
  parameters, and returns the status, the buffer and the lines given to \<open>printk\<close> (without
  their final newline). Taking and dropping the reference to the lower path does not touch
  the buffer and is left out.
\<close>

definition sdcardfs_statfs ::
  "(kstatfs \<Rightarrow> int \<times> kstatfs) \<Rightarrow> long \<Rightarrow> sdcardfs_sb_info \<Rightarrow> kstatfs
    \<Rightarrow> int \<times> kstatfs \<times> string list" where
  "sdcardfs_statfs vfs_statfs SDCARDFS_SUPER_MAGIC sbi arg =
    (let (err, buf) = vfs_statfs arg in
     if reserved_mb (options sbi) \<noteq> 0 then
       if f_bsize buf = 0 then
         (- EINVAL, buf, [''Returned block size is zero.''])
       else
         let min_blocks = min_blocks_of (reserved_mb (options sbi)) (f_bsize buf);
             buf = buf\<lparr>f_blocks := f_blocks buf - ucast min_blocks\<rparr>;
             buf = (if f_bavail buf > ucast min_blocks
                    then buf\<lparr>f_bavail := f_bavail buf - ucast min_blocks\<rparr>
                    else buf\<lparr>f_bavail := 0\<rparr>);
             buf = buf\<lparr>f_bfree := f_bavail buf\<rparr>
         in (err, buf\<lparr>f_type := SDCARDFS_SUPER_MAGIC\<rparr>, [])
     else (err, buf\<lparr>f_type := SDCARDFS_SUPER_MAGIC\<rparr>, []))"

subsection \<open>sdcardfs_remount_fs\<close>

text \<open>
  The function receives the super block, the flag word \<open>*flags\<close> and the option string; it
  writes to none of them. The model returns the status, the super block as the call leaves
  it, and the lines given to \<open>printk\<close>.
\<close>

definition sdcardfs_remount_fs ::
  "super_block \<Rightarrow> u32 \<Rightarrow> string \<Rightarrow> int \<times> super_block \<times> string list" where
  "sdcardfs_remount_fs sb flags opts =
    (let err = 0 in
     if (flags AND NOT (MS_RDONLY OR MS_MANDLOCK OR MS_SILENT)) \<noteq> 0
     then (- EINVAL, sb, [''sdcardfs: remount flags 0x%x unsupported''])
     else (err, sb, []))"

subsection \<open>Stacked inodes\<close>

text \<open>
  Inodes are named by their addresses. \<open>struct sdcardfs_inode_info\<close> holds the pointer to
  the backing inode (\<open>None\<close> when null) in front of the embedded VFS inode, of which
  \<open>i_version\<close> is the field super.c writes.
\<close>

type_synonym inode_ptr = nat

record sdcardfs_inode_info =
  lower_inode :: "inode_ptr option"
  i_version :: u64

text \<open>The VFS calls made on behalf of an inode, in the order they are made.\<close>

datatype vfs_call =
    Truncate_inode_pages inode_ptr
  | Clear_inode inode_ptr
  | Iput "inode_ptr option"

text \<open>
  The objects handed out by \<open>sdcardfs_inode_cachep\<close> and not yet given back, by address,
  and the log of VFS calls.
\<close>

record inode_cache =
  objects :: "inode_ptr \<rightharpoonup> sdcardfs_inode_info"
  vfs_calls :: "vfs_call list"

text \<open>
  Modelled from the spec: the accessors \<open>sdcardfs_lower_inode\<close> and \<open>sdcardfs_set_lower_inode\<close>
  are inline functions of sdcardfs.h. The specification gives them as "bind(stacked, backing)
  stores the backing reference" and "unbind clears the stored reference and returns it"; the
  first reads the stored reference, the second stores a reference (or null).
\<close>

definition sdcardfs_lower_inode :: "inode_cache \<Rightarrow> inode_ptr \<Rightarrow> inode_ptr option" where
  "sdcardfs_lower_inode c i = (case objects c i of None \<Rightarrow> None | Some info \<Rightarrow> lower_inode info)"

definition sdcardfs_set_lower_inode ::
  "inode_ptr \<Rightarrow> inode_ptr option \<Rightarrow> inode_cache \<Rightarrow> inode_cache" where
  "sdcardfs_set_lower_inode i val c =
    (case objects c i of
       None \<Rightarrow> c
     | Some info \<Rightarrow> c\<lparr>objects := (objects c)(i \<mapsto> info\<lparr>lower_inode := val\<rparr>)\<rparr>)"

definition vfs_call :: "vfs_call \<Rightarrow> inode_cache \<Rightarrow> inode_cache" where
  "vfs_call e c = c\<lparr>vfs_calls := vfs_calls c @ [e]\<rparr>"

definition sdcardfs_evict_inode :: "inode_ptr \<Rightarrow> inode_cache \<Rightarrow> inode_cache" where
  "sdcardfs_evict_inode inode c =
    (let c = vfs_call (Truncate_inode_pages inode) c;
         c = vfs_call (Clear_inode inode) c;
         lower = sdcardfs_lower_inode c inode;
         c = sdcardfs_set_lower_inode inode None c
     in vfs_call (Iput lower) c)"

text \<open>
  \<open>kmem_cache_alloc\<close> is a parameter: it yields null, or the address of an object together
  with the bytes that object happens to hold. The \<open>memset\<close> clears everything in front of the
  VFS inode, that is the backing pointer.
\<close>

definition sdcardfs_alloc_inode ::
  "(inode_ptr \<times> sdcardfs_inode_info) option \<Rightarrow> inode_cache \<Rightarrow> inode_ptr option \<times> inode_cache" where
  "sdcardfs_alloc_inode kmem_cache_alloc c =
    (case kmem_cache_alloc of
       None \<Rightarrow> (None, c)
     | Some (i, raw) \<Rightarrow>
         let info = raw\<lparr>lower_inode := None\<rparr>;
             info = info\<lparr>i_version := 1\<rparr>
         in (Some i, c\<lparr>objects := (objects c)(i \<mapsto> info)\<rparr>))"

definition sdcardfs_destroy_inode :: "inode_ptr \<Rightarrow> inode_cache \<Rightarrow> inode_cache" where
  "sdcardfs_destroy_inode inode c = c\<lparr>objects := (objects c)(inode := None)\<rparr>"

subsection \<open>The kernel as seen by the propagation callbacks\<close>

text \<open>
  The callbacks call into the rest of the kernel: credential substitution
  (\<open>override_fsids\<close>, \<open>revert_fsids\<close>), the allocator (\<open>kmalloc\<close>, \<open>kfree\<close>) and the path
  operations (\<open>do_unlinkat\<close>, \<open>sys_renameat2\<close>). These are parameters of the model: each is a
  function of an abstract kernel state \<open>'w\<close>, so that the outcome of a call may depend on
  every call made before it. Credentials and buffers are named by their addresses; a null
  result is \<open>None\<close>.
\<close>

type_synonym cred = nat
type_synonym ptr = nat

text \<open>The address limit read by \<open>get_fs\<close> and written by \<open>set_fs\<close>.\<close>

datatype mm_segment_t = USER_DS | KERNEL_DS

text \<open>The one rename flag the source passes; its numeric value is not used.\<close>

datatype rename_flags = RENAME_NOPROPAGATE

record 'w kernel_ops =
  override_fsids :: "nat \<Rightarrow> nat \<Rightarrow> 'w \<Rightarrow> cred option \<times> 'w"
  revert_fsids :: "cred \<Rightarrow> 'w \<Rightarrow> 'w"
  kmalloc :: "nat \<Rightarrow> 'w \<Rightarrow> ptr option \<times> 'w"
  kfree :: "ptr \<Rightarrow> 'w \<Rightarrow> 'w"
  do_unlinkat :: "string \<Rightarrow> 'w \<Rightarrow> int \<times> 'w"
  sys_renameat2 :: "string \<Rightarrow> string \<Rightarrow> rename_flags \<Rightarrow> 'w \<Rightarrow> int \<times> 'w"

text \<open>
  Every call into the kernel is logged with its arguments and its result. The source passes
  \<open>AT_FDCWD\<close> for every directory descriptor and \<open>false\<close> to \<open>do_unlinkat\<close>; these constants
  are not recorded. A \<open>printk\<close> line is recorded without its final newline.
\<close>

datatype event =
    Override_fsids nat nat "cred option"
  | Revert_fsids cred
  | Kmalloc nat "ptr option"
  | Kfree ptr
  | Printk string
  | Set_fs mm_segment_t
  | Do_unlinkat string int
  | Sys_renameat2 string string rename_flags int

record 'w kernel =
  world :: 'w
  addr_limit :: mm_segment_t
  events :: "event list"

definition log_event :: "event \<Rightarrow> 'w kernel \<Rightarrow> 'w kernel" where
  "log_event e s = s\<lparr>events := events s @ [e]\<rparr>"

definition call_override_fsids ::
  "'w kernel_ops \<Rightarrow> nat \<Rightarrow> nat \<Rightarrow> 'w kernel \<Rightarrow> cred option \<times> 'w kernel" where
  "call_override_fsids K uid gid s =
    (let (c, w) = override_fsids K uid gid (world s)
     in (c, log_event (Override_fsids uid gid c) (s\<lparr>world := w\<rparr>)))"

definition call_revert_fsids :: "'w kernel_ops \<Rightarrow> cred \<Rightarrow> 'w kernel \<Rightarrow> 'w kernel" where
  "call_revert_fsids K c s =
    log_event (Revert_fsids c) (s\<lparr>world := revert_fsids K c (world s)\<rparr>)"

definition call_kmalloc ::
  "'w kernel_ops \<Rightarrow> nat \<Rightarrow> 'w kernel \<Rightarrow> ptr option \<times> 'w kernel" where
  "call_kmalloc K n s =
    (let (p, w) = kmalloc K n (world s)
     in (p, log_event (Kmalloc n p) (s\<lparr>world := w\<rparr>)))"

definition call_kfree :: "'w kernel_ops \<Rightarrow> ptr \<Rightarrow> 'w kernel \<Rightarrow> 'w kernel" where
  "call_kfree K p s = log_event (Kfree p) (s\<lparr>world := kfree K p (world s)\<rparr>)"

definition printk :: "string \<Rightarrow> 'w kernel \<Rightarrow> 'w kernel" where
  "printk msg s = log_event (Printk msg) s"

definition get_fs :: "'w kernel \<Rightarrow> mm_segment_t" where
  "get_fs s = addr_limit s"

definition set_fs :: "mm_segment_t \<Rightarrow> 'w kernel \<Rightarrow> 'w kernel" where
  "set_fs seg s = log_event (Set_fs seg) (s\<lparr>addr_limit := seg\<rparr>)"

definition call_do_unlinkat :: "'w kernel_ops \<Rightarrow> string \<Rightarrow> 'w kernel \<Rightarrow> int \<times> 'w kernel" where
  "call_do_unlinkat K path s =
    (let (r, w) = do_unlinkat K path (world s)
     in (r, log_event (Do_unlinkat path r) (s\<lparr>world := w\<rparr>)))"

definition call_sys_renameat2 ::
  "'w kernel_ops \<Rightarrow> string \<Rightarrow> string \<Rightarrow> rename_flags \<Rightarrow> 'w kernel \<Rightarrow> int \<times> 'w kernel" where
  "call_sys_renameat2 K old new fl s =
    (let (r, w) = sys_renameat2 K old new fl (world s)
     in (r, log_event (Sys_renameat2 old new fl r) (s\<lparr>world := w\<rparr>)))"

text \<open>
  \<open>snprintf(buf, n, "<prefix>%s%s", a, b)\<close>: the buffer receives the formatted text cut
  to at most \<open>n - 1\<close> characters, followed by the terminating zero.
\<close>

definition snprintf :: "nat \<Rightarrow> string \<Rightarrow> string \<Rightarrow> string \<Rightarrow> string" where
  "snprintf n prefix a b = take (n - 1) (prefix @ a @ b)"

subsection \<open>sdcardfs_propagate_unlink\<close>

definition sdcardfs_propagate_unlink ::
  "'w kernel_ops \<Rightarrow> sdcardfs_sb_info \<Rightarrow> string \<Rightarrow> 'w kernel \<Rightarrow> int \<times> 'w kernel" where
  "sdcardfs_propagate_unlink K sbi pathname s =
    (let ret = 0;
         (saved_cred, s) = call_override_fsids K 0 0 s
     in case saved_cred of
          None \<Rightarrow> (- ENOMEM, s)
        | Some cred \<Rightarrow>
            let (propagate_path, s) = call_kmalloc K PATH_MAX s
            in case propagate_path of
                 None \<Rightarrow>
                   let s = printk ''sdcardfs: unlink propagate_path kmalloc fail'' s;
                       s = call_revert_fsids K cred s
                   in (- ENOMEM, s)
               | Some buf \<Rightarrow>
                   let old_fs = get_fs s;
                       s = set_fs KERNEL_DS s;
                       (ret, s) =
                         (if type (options sbi) \<noteq> TYPE_NONE \<and> type (options sbi) \<noteq> TYPE_DEFAULT
                          then call_do_unlinkat K
                                 (snprintf PATH_MAX ''/mnt/runtime/default/''
                                    (label (options sbi)) pathname) s
                          else (ret, s));
                       (ret, s) =
                         (if type (options sbi) \<noteq> TYPE_NONE \<and> type (options sbi) \<noteq> TYPE_READ
                          then call_do_unlinkat K
                                 (snprintf PATH_MAX ''/mnt/runtime/read/''
                                    (label (options sbi)) pathname) s
                          else (ret, s));
                       (ret, s) =
                         (if type (options sbi) \<noteq> TYPE_NONE \<and> type (options sbi) \<noteq> TYPE_WRITE
                          then call_do_unlinkat K
                                 (snprintf PATH_MAX ''/mnt/runtime/write/''
                                    (label (options sbi)) pathname) s
                          else (ret, s));
                       (ret, s) =
                         (if type (options sbi) \<noteq> TYPE_NONE
                          then call_do_unlinkat K
                                 (snprintf PATH_MAX ''/storage/''
                                    (label (options sbi)) pathname) s
                          else (ret, s));
                       s = set_fs old_fs s;
                       s = call_revert_fsids K cred s;
                       s = call_kfree K buf s
                   in (ret, s))"

subsection \<open>sdcardfs_propagate_rename\<close>

definition sdcardfs_propagate_rename ::
  "'w kernel_ops \<Rightarrow> sdcardfs_sb_info \<Rightarrow> string \<Rightarrow> string \<Rightarrow> 'w kernel \<Rightarrow> int \<times> 'w kernel" where
  "sdcardfs_propagate_rename K sbi oldname newname s =
    (let ret = 0;
         (saved_cred, s) = call_override_fsids K 0 0 s
     in case saved_cred of
          None \<Rightarrow> (- ENOMEM, s)
        | Some cred \<Rightarrow>
            let (propagate_old_path, s) = call_kmalloc K PATH_MAX s
            in case propagate_old_path of
                 None \<Rightarrow>
                   let s = printk ''sdcardfs: unlink propagate_old_path kmalloc fail'' s;
                       s = call_revert_fsids K cred s
                   in (- ENOMEM, s)
               | Some old_buf \<Rightarrow>
                   let (propagete_new_path, s) = call_kmalloc K PATH_MAX s
                   in case propagete_new_path of
                        None \<Rightarrow>
                          let s = printk ''sdcardfs: unlink propagate_new_path kmalloc fail'' s;
                              s = call_revert_fsids K cred s;
                              s = call_kfree K old_buf s
                          in (- ENOMEM, s)
                      | Some new_buf \<Rightarrow>
                          let old_fs = get_fs s;
                              s = set_fs KERNEL_DS s;
                              (ret, s) =
                                (if type (options sbi) \<noteq> TYPE_NONE
                                    \<and> type (options sbi) \<noteq> TYPE_DEFAULT
                                 then call_sys_renameat2 K
                                        (snprintf PATH_MAX ''/mnt/runtime/default/''
                                           (label (options sbi)) oldname)
                                        (snprintf PATH_MAX ''/mnt/runtime/default/''
                                           (label (options sbi)) newname)
                                        RENAME_NOPROPAGATE s
                                 else (ret, s));
                              (ret, s) =
                                (if type (options sbi) \<noteq> TYPE_NONE
                                    \<and> type (options sbi) \<noteq> TYPE_READ
                                 then call_sys_renameat2 K
                                        (snprintf PATH_MAX ''/mnt/runtime/read/''
                                           (label (options sbi)) oldname)
                                        (snprintf PATH_MAX ''/mnt/runtime/read/''
                                           (label (options sbi)) newname)
                                        RENAME_NOPROPAGATE s
                                 else (ret, s));
                              (ret, s) =
                                (if type (options sbi) \<noteq> TYPE_NONE
                                    \<and> type (options sbi) \<noteq> TYPE_WRITE
                                 then call_sys_renameat2 K
                                        (snprintf PATH_MAX ''/mnt/runtime/write/''
                                           (label (options sbi)) oldname)
                                        (snprintf PATH_MAX ''/mnt/runtime/write/''
                                           (label (options sbi)) newname)
                                        RENAME_NOPROPAGATE s
                                 else (ret, s));
                              (ret, s) =
                                (if type (options sbi) \<noteq> TYPE_NONE
                                 then call_sys_renameat2 K
                                        (snprintf PATH_MAX ''/storage/''
                                           (label (options sbi)) oldname)
                                        (snprintf PATH_MAX ''/storage/''
                                           (label (options sbi)) newname)
                                        RENAME_NOPROPAGATE s
                                 else (ret, s));
                              s = set_fs old_fs s;
                              s = call_revert_fsids K cred s;
                              s = call_kfree K old_buf s;
                              s = call_kfree K new_buf s
                          in (ret, s))"

subsection \<open>Reading the log of one call\<close>

text \<open>The events a call appended to the log: those after the ones already there.\<close>

definition call_events :: "'w kernel \<Rightarrow> 'w kernel \<Rightarrow> event list" where
  "call_events s s' = drop (length (events s)) (events s')"

text \<open>The delete operations in a log, each with its path and the status it returned.\<close>

primrec unlink_attempts :: "event list \<Rightarrow> (string \<times> int) list" where
  "unlink_attempts [] = []"
| "unlink_attempts (e # es) =
    (case e of Do_unlinkat p r \<Rightarrow> [(p, r)] | _ \<Rightarrow> []) @ unlink_attempts es"

text \<open>The rename operations in a log: old path, new path, and the status returned.\<close>

primrec rename_attempts :: "event list \<Rightarrow> ((string \<times> string) \<times> int) list" where
  "rename_attempts [] = []"
| "rename_attempts (e # es) =
    (case e of Sys_renameat2 p q fl r \<Rightarrow> [((p, q), r)] | _ \<Rightarrow> []) @ rename_attempts es"

text \<open>Credentials obtained and given back, buffers obtained and freed.\<close>

primrec creds_acquired :: "event list \<Rightarrow> cred list" where
  "creds_acquired [] = []"
| "creds_acquired (e # es) =
    (case e of Override_fsids u g (Some c) \<Rightarrow> [c] | _ \<Rightarrow> []) @ creds_acquired es"

primrec creds_reverted :: "event list \<Rightarrow> cred list" where
  "creds_reverted [] = []"
| "creds_reverted (e # es) =
    (case e of Revert_fsids c \<Rightarrow> [c] | _ \<Rightarrow> []) @ creds_reverted es"

primrec bufs_allocated :: "event list \<Rightarrow> ptr list" where
  "bufs_allocated [] = []"
| "bufs_allocated (e # es) =
    (case e of Kmalloc n (Some p) \<Rightarrow> [p] | _ \<Rightarrow> []) @ bufs_allocated es"

primrec bufs_freed :: "event list \<Rightarrow> ptr list" where
  "bufs_freed [] = []"
| "bufs_freed (e # es) =
    (case e of Kfree p \<Rightarrow> [p] | _ \<Rightarrow> []) @ bufs_freed es"

text \<open>
  The projection table of the specification, section 3: the prefixes whose condition
  holds for a mount type, in the order of the table.
\<close>

definition spec_prefixes :: "type_t \<Rightarrow> string list" where
  "spec_prefixes t =
    (if t \<notin> {TYPE_NONE, TYPE_DEFAULT} then [''/mnt/runtime/default/''] else []) @
    (if t \<notin> {TYPE_NONE, TYPE_READ} then [''/mnt/runtime/read/''] else []) @
    (if t \<notin> {TYPE_NONE, TYPE_WRITE} then [''/mnt/runtime/write/''] else []) @
    (if t \<noteq> TYPE_NONE then [''/storage/''] else [])"

text \<open>
  The paths of the specification, section 4.3: \<open>prefix + label + relative_path\<close> for every
  active prefix.
\<close>

definition spec_projections :: "type_t \<Rightarrow> string \<Rightarrow> string \<Rightarrow> string list" where
  "spec_projections t l rel = map (\<lambda>prefix. prefix @ l @ rel) (spec_prefixes t)"

text \<open>
  The reservation of the specification, section 4.2, in blocks:
  \<open>reservation_mb * 1MiB / block_size\<close> over the natural numbers.
\<close>

definition spec_reserved_blocks :: "nat \<Rightarrow> nat \<Rightarrow> nat" where
  "spec_reserved_blocks R B = R * 1048576 div B"

text \<open>The allocations of one call succeed: neither the credentials nor a buffer is null.\<close>

definition unlink_allocs_ok :: "'w kernel_ops \<Rightarrow> 'w kernel \<Rightarrow> bool" where
  "unlink_allocs_ok K s =
    (case override_fsids K 0 0 (world s) of
       (None, _) \<Rightarrow> False
     | (Some _, w) \<Rightarrow> fst (kmalloc K PATH_MAX w) \<noteq> None)"

definition rename_allocs_ok :: "'w kernel_ops \<Rightarrow> 'w kernel \<Rightarrow> bool" where
  "rename_allocs_ok K s =
    (case override_fsids K 0 0 (world s) of
       (None, _) \<Rightarrow> False
     | (Some _, w) \<Rightarrow>
         (case kmalloc K PATH_MAX w of
            (None, _) \<Rightarrow> False
          | (Some _, w') \<Rightarrow> fst (kmalloc K PATH_MAX w') \<noteq> None))"

subsection \<open>A small concrete kernel\<close>

text \<open>
  A kernel state that can be evaluated: the set of existing paths as a list, a script of
  allocation outcomes consumed one per request (an exhausted script means success), and the
  next free address.
\<close>

record sim_world =
  paths :: "string list"
  alloc_script :: "bool list"
  next_addr :: nat

definition sim_alloc :: "sim_world \<Rightarrow> nat option \<times> sim_world" where
  "sim_alloc w =
    (case alloc_script w of
       False # bs \<Rightarrow> (None, w\<lparr>alloc_script := bs\<rparr>)
     | _ \<Rightarrow> (Some (next_addr w), w\<lparr>alloc_script := tl (alloc_script w), next_addr := Suc (next_addr w)\<rparr>))"

definition ENOENT :: int where
  "ENOENT = 2"

definition sim_unlink :: "string \<Rightarrow> sim_world \<Rightarrow> int \<times> sim_world" where
  "sim_unlink p w =
    (if p \<in> set (paths w) then (0, w\<lparr>paths := removeAll p (paths w)\<rparr>) else (- ENOENT, w))"

definition sim_rename :: "string \<Rightarrow> string \<Rightarrow> rename_flags \<Rightarrow> sim_world \<Rightarrow> int \<times> sim_world" where
  "sim_rename p q fl w =
    (if p \<in> set (paths w) then (0, w\<lparr>paths := q # removeAll p (paths w)\<rparr>) else (- ENOENT, w))"

definition sim_ops :: "sim_world kernel_ops" where
  "sim_ops =
    \<lparr>override_fsids = (\<lambda>uid gid. sim_alloc),
     revert_fsids = (\<lambda>c w. w),
     kmalloc = (\<lambda>n. sim_alloc),
     kfree = (\<lambda>p w. w),
     do_unlinkat = sim_unlink,
     sys_renameat2 = sim_rename\<rparr>"

definition sim_kernel :: "string list \<Rightarrow> bool list \<Rightarrow> sim_world kernel" where
  "sim_kernel ps script =
    \<lparr>world = \<lparr>paths = ps, alloc_script = script, next_addr = 1\<rparr>,
     addr_limit = USER_DS, events = []\<rparr>"

text \<open>
  A relative path of 16 components of 255 characters each (a slash and 254 letters): 4080
  characters, below \<open>PATH_MAX\<close>, every component within the limit for a file name.
\<close>

definition deep_path :: string where
  "deep_path = concat (replicate 16 (CHR ''/'' # replicate 254 CHR ''x''))"

text \<open>A backing query that answers with a given status and a given buffer.\<close>

definition sim_vfs_statfs :: "int \<Rightarrow> kstatfs \<Rightarrow> kstatfs \<Rightarrow> int \<times> kstatfs" where
  "sim_vfs_statfs err st buf = (err, st)"

definition sim_kstatfs :: "long \<Rightarrow> u64 \<Rightarrow> u64 \<Rightarrow> u64 \<Rightarrow> kstatfs" where
  "sim_kstatfs bsize blocks bfree bavail =
    \<lparr>f_type = 61267, f_bsize = bsize, f_blocks = blocks, f_bfree = bfree, f_bavail = bavail\<rparr>"

definition sim_sbi :: "u32 \<Rightarrow> string \<Rightarrow> type_t \<Rightarrow> sdcardfs_sb_info" where
  "sim_sbi r l t =
    \<lparr>options = \<lparr>fs_low_uid = 0, fs_low_gid = 0, sdfs_gid = 0, sdfs_mask = 0, multi_user = 0,
       reserved_mb = r, label = l, type = t\<rparr>\<rparr>"

section \<open>Auxiliary facts\<close>

subsection \<open>The event log\<close>

lemma events_log_event [simp]: "events (log_event e s) = events s @ [e]"
  and world_log_event [simp]: "world (log_event e s) = world s"
  and addr_limit_log_event [simp]: "addr_limit (log_event e s) = addr_limit s"
  by (simp_all add: log_event_def)

lemma call_override_fsids_simps [simp]:
  "fst (call_override_fsids K u g s) = fst (override_fsids K u g (world s))"
  "world (snd (call_override_fsids K u g s)) = snd (override_fsids K u g (world s))"
  "addr_limit (snd (call_override_fsids K u g s)) = addr_limit s"
  "events (snd (call_override_fsids K u g s)) =
     events s @ [Override_fsids u g (fst (override_fsids K u g (world s)))]"
  by (simp_all add: call_override_fsids_def case_prod_beta)

lemma call_kmalloc_simps [simp]:
  "fst (call_kmalloc K n s) = fst (kmalloc K n (world s))"
  "world (snd (call_kmalloc K n s)) = snd (kmalloc K n (world s))"
  "addr_limit (snd (call_kmalloc K n s)) = addr_limit s"
  "events (snd (call_kmalloc K n s)) = events s @ [Kmalloc n (fst (kmalloc K n (world s)))]"
  by (simp_all add: call_kmalloc_def case_prod_beta)

lemma call_do_unlinkat_simps [simp]:
  "fst (call_do_unlinkat K p s) = fst (do_unlinkat K p (world s))"
  "world (snd (call_do_unlinkat K p s)) = snd (do_unlinkat K p (world s))"
  "addr_limit (snd (call_do_unlinkat K p s)) = addr_limit s"
  "events (snd (call_do_unlinkat K p s)) =
     events s @ [Do_unlinkat p (fst (do_unlinkat K p (world s)))]"
  by (simp_all add: call_do_unlinkat_def case_prod_beta)

lemma call_sys_renameat2_simps [simp]:
  "fst (call_sys_renameat2 K p q fl s) = fst (sys_renameat2 K p q fl (world s))"
  "world (snd (call_sys_renameat2 K p q fl s)) = snd (sys_renameat2 K p q fl (world s))"
  "addr_limit (snd (call_sys_renameat2 K p q fl s)) = addr_limit s"
  "events (snd (call_sys_renameat2 K p q fl s)) =
     events s @ [Sys_renameat2 p q fl (fst (sys_renameat2 K p q fl (world s)))]"
  by (simp_all add: call_sys_renameat2_def case_prod_beta)

lemma call_revert_fsids_simps [simp]:
  "world (call_revert_fsids K c s) = revert_fsids K c (world s)"
  "addr_limit (call_revert_fsids K c s) = addr_limit s"
  "events (call_revert_fsids K c s) = events s @ [Revert_fsids c]"
  by (simp_all add: call_revert_fsids_def)

lemma call_kfree_simps [simp]:
  "world (call_kfree K p s) = kfree K p (world s)"
  "addr_limit (call_kfree K p s) = addr_limit s"
  "events (call_kfree K p s) = events s @ [Kfree p]"
  by (simp_all add: call_kfree_def)

lemma printk_simps [simp]:
  "world (printk m s) = world s"
  "addr_limit (printk m s) = addr_limit s"
  "events (printk m s) = events s @ [Printk m]"
  by (simp_all add: printk_def)

lemma set_fs_simps [simp]:
  "world (set_fs seg s) = world s"
  "addr_limit (set_fs seg s) = seg"
  "events (set_fs seg s) = events s @ [Set_fs seg]"
  by (simp_all add: set_fs_def)

lemmas propagate_defs = sdcardfs_propagate_unlink_def sdcardfs_propagate_rename_def
  call_events_def get_fs_def case_prod_beta Let_def

lemmas sim_defs = sim_ops_def sim_kernel_def sim_sbi_def sim_alloc_def sim_unlink_def
  sim_rename_def

lemmas inode_defs = sdcardfs_evict_inode_def sdcardfs_lower_inode_def
  sdcardfs_set_lower_inode_def vfs_call_def sdcardfs_alloc_inode_def sdcardfs_destroy_inode_def

subsection \<open>Words\<close>

lemma and_not_neq_0_iff:
  "w AND NOT m \<noteq> 0 \<longleftrightarrow> (\<exists>n. bit w n \<and> \<not> bit m n)" for w m :: "'a::len word"
proof
  assume "w AND NOT m \<noteq> 0"
  then obtain n where "bit (w AND NOT m) n"
    by (auto simp add: bit_eq_iff)
  then have "bit w n \<and> \<not> bit m n"
    by (simp add: bit_and_iff bit_not_iff)
  then show "\<exists>n. bit w n \<and> \<not> bit m n" ..
next
  assume "\<exists>n. bit w n \<and> \<not> bit m n"
  then obtain n where n: "bit w n" "\<not> bit m n"
    by blast
  from n(1) have "n < LENGTH('a)"
    by (rule bit_imp_le_length)
  with n have "bit (w AND NOT m) n"
    by (simp add: bit_and_iff bit_not_iff)
  then show "w AND NOT m \<noteq> 0"
    by auto
qed

lemma sint_ucast_u32: "sint (ucast (x :: u32) :: long) = uint x"
proof -
  have "uint x < 2 ^ 32"
    using uint_bounded [of x] by simp
  then have "uint x < 2 ^ 63"
    by simp
  moreover have "- (2 ^ 63) \<le> uint x"
    using uint_nonnegative [of x] by (simp add: order_trans [of _ 0])
  ultimately have "signed_take_bit 63 (uint x) = uint x"
    by (intro signed_take_bit_int_eq_self) simp_all
  then show ?thesis
    by (simp add: signed_ucast_eq)
qed

lemma sdiv_nonneg_pos: "0 \<le> k \<Longrightarrow> 0 < l \<Longrightarrow> k sdiv l = k div (l :: int)"
  by (cases "k = 0") (simp_all add: signed_divide_int_def)

lemma c_div_long_u32:
  assumes "0 <s b"
  shows "unat (ucast (c_div_long (ucast (x :: u32)) b) :: u32) = unat x div nat (sint b)"
proof -
  from assms have b: "0 < sint b"
    by (simp add: word_sless_alt)
  define n where "n = unat x div nat (sint b)"
  have "n \<le> unat x"
    by (simp add: n_def)
  also have "unat x < 2 ^ 32"
    using unsigned_less [of x] by simp
  finally have n32: "n < 2 ^ 32" .
  have "uint x sdiv sint b = int (unat x) div int (nat (sint b))"
    using b by (simp add: sdiv_nonneg_pos)
  also have "\<dots> = int n"
    by (simp only: n_def zdiv_int)
  finally have "c_div_long (ucast x) b = word_of_nat n"
    by (simp add: c_div_long_def sint_ucast_u32)
  then have "unat (ucast (c_div_long (ucast x) b) :: u32) =
      take_bit 32 (unat (word_of_nat n :: long))"
    by (simp add: unsigned_ucast_eq)
  also have "unat (word_of_nat n :: long) = n"
    using n32 by (simp add: unat_of_nat)
  also have "take_bit 32 n = n"
    using n32 by (simp add: take_bit_nat_eq_self)
  finally show ?thesis
    by (simp only: n_def)
qed

lemma reserved_bytes_no_wrap:
  assumes "unat (r :: u32) < 4096"
  shows "unat (r * 1024 * 1024) = unat r * 1048576"
proof -
  have "unat r * unat (1048576 :: u32) < 2 ^ LENGTH(32)"
    using assms by simp
  then have "unat (r * 1048576) = unat r * unat (1048576 :: u32)"
    by (simp only: unat_mult_lem)
  then show ?thesis
    by (simp add: mult.commute)
qed

text \<open>
  Below 4096 MB the product does not wrap, and for a positive block size \<open>min_blocks\<close> is
  the reservation of the specification.
\<close>

lemma min_blocks_of_exact:
  assumes "unat r < 4096" and "0 <s b"
  shows "unat (min_blocks_of r b) = spec_reserved_blocks (unat r) (nat (sint b))"
  using assms
  by (simp only: min_blocks_of_def c_div_long_u32 reserved_bytes_no_wrap spec_reserved_blocks_def)

lemma unat_ucast_u32_u64: "unat (ucast (m :: u32) :: u64) = unat m"
proof -
  have "unat m < 2 ^ 32"
    using unsigned_less [of m] by simp
  then have "unat m < 2 ^ 64"
    by simp
  then show ?thesis
    by (simp add: unsigned_ucast_eq take_bit_nat_eq_self)
qed

text \<open>
  For a reservation below 4096 MB and a positive block size, \<open>sdcardfs_statfs\<close> subtracts the
  reservation of the specification: from the total in \<open>u64\<close> arithmetic, from the available
  blocks stopping at zero, and the free blocks are the available ones.
\<close>

lemma statfs_reservation_in_range:
  assumes "vfs_statfs arg = (err, buf)"
    and "0 < reserved_mb (options sbi)" and "unat (reserved_mb (options sbi)) < 4096"
    and "0 <s f_bsize buf"
    and "sdcardfs_statfs vfs_statfs magic sbi arg = (ret, out, msgs)"
    and "m = spec_reserved_blocks (unat (reserved_mb (options sbi))) (nat (sint (f_bsize buf)))"
  shows "f_blocks out = f_blocks buf - word_of_nat m"
    and "unat (f_bavail out) = unat (f_bavail buf) - m"
    and "f_bfree out = f_bavail out"
proof -
  define mb where "mb = min_blocks_of (reserved_mb (options sbi)) (f_bsize buf)"
  have m: "unat mb = m"
    using assms(3,4,6) by (simp add: mb_def min_blocks_of_exact)
  have u: "unat (ucast mb :: u64) = m"
    using m by (simp add: unat_ucast_u32_u64)
  have w: "(ucast mb :: u64) = word_of_nat m"
    using m by (metis of_nat_unat ucast_id)
  have r: "reserved_mb (options sbi) \<noteq> 0"
    using assms(2) by (simp add: word_gt_0)
  have b: "f_bsize buf \<noteq> 0"
    using assms(4) by auto
  have out: "out = buf\<lparr>f_blocks := f_blocks buf - ucast mb,
      f_bavail := (if ucast mb < f_bavail buf then f_bavail buf - ucast mb else 0),
      f_bfree := (if ucast mb < f_bavail buf then f_bavail buf - ucast mb else 0),
      f_type := magic\<rparr>"
    using assms(1,5) r b by (auto simp add: sdcardfs_statfs_def Let_def mb_def)
  show "f_blocks out = f_blocks buf - word_of_nat m"
    by (simp add: out w)
  show "f_bfree out = f_bavail out"
    by (simp add: out)
  show "unat (f_bavail out) = unat (f_bavail buf) - m"
  proof (cases "ucast mb < f_bavail buf")
    case True
    then have "ucast mb \<le> f_bavail buf"
      by simp
    then have "unat (f_bavail buf - ucast mb) = unat (f_bavail buf) - unat (ucast mb :: u64)"
      by (rule unat_sub)
    with True show ?thesis
      by (simp add: out u)
  next
    case False
    then have "unat (f_bavail buf) \<le> m"
      using u by (simp add: word_less_nat_alt)
    with False show ?thesis
      by (simp add: out)
  qed
qed

section \<open>The view propagation engine\<close>

text \<open>
  For every mount type and every call whose credential substitution and buffer
  allocations succeed, the operations attempted are those of the table of the
  specification, in the order of the table, and each is given what \<open>snprintf\<close> left in the
  buffer: the first \<open>PATH_MAX - 1\<close> characters of \<open>prefix + label + relative_path\<close>.
\<close>

lemma propagate_attempts_follow_table:
  "(unlink_allocs_ok K s \<longrightarrow>
      map fst (unlink_attempts (call_events s (snd (sdcardfs_propagate_unlink K sbi p s)))) =
      map (take (PATH_MAX - 1)) (spec_projections (type (options sbi)) (label (options sbi)) p)) \<and>
   (rename_allocs_ok K s \<longrightarrow>
      map fst (rename_attempts (call_events s (snd (sdcardfs_propagate_rename K sbi p q s)))) =
      zip (map (take (PATH_MAX - 1)) (spec_projections (type (options sbi)) (label (options sbi)) p))
          (map (take (PATH_MAX - 1)) (spec_projections (type (options sbi)) (label (options sbi)) q)))"
proof (intro conjI impI)
  assume "unlink_allocs_ok K s"
  then show "map fst (unlink_attempts (call_events s (snd (sdcardfs_propagate_unlink K sbi p s)))) =
      map (take (PATH_MAX - 1)) (spec_projections (type (options sbi)) (label (options sbi)) p)"
    by (cases "type (options sbi)")
      (simp_all add: propagate_defs unlink_allocs_ok_def spec_projections_def spec_prefixes_def
        snprintf_def split: option.splits)
next
  assume "rename_allocs_ok K s"
  then show "map fst (rename_attempts (call_events s (snd (sdcardfs_propagate_rename K sbi p q s)))) =
      zip (map (take (PATH_MAX - 1)) (spec_projections (type (options sbi)) (label (options sbi)) p))
          (map (take (PATH_MAX - 1)) (spec_projections (type (options sbi)) (label (options sbi)) q))"
    by (cases "type (options sbi)")
      (simp_all add: propagate_defs rename_allocs_ok_def spec_projections_def spec_prefixes_def
        snprintf_def split: option.splits)
qed

text \<open>
  The scenario of the specification, label \<open>abc\<close> and type \<open>DEFAULT\<close>: deleting \<open>/foo.txt\<close>
  reaches the read, write and storage views, and the default view is skipped.
\<close>

lemma propagate_attempts_scenario_default:
  "map fst (unlink_attempts (call_events (sim_kernel [] [])
      (snd (sdcardfs_propagate_unlink sim_ops (sim_sbi 0 ''abc'' TYPE_DEFAULT) ''/foo.txt''
         (sim_kernel [] []))))) =
     [''/mnt/runtime/read/abc/foo.txt'', ''/mnt/runtime/write/abc/foo.txt'',
      ''/storage/abc/foo.txt''] \<and>
   map fst (rename_attempts (call_events (sim_kernel [] [])
      (snd (sdcardfs_propagate_rename sim_ops (sim_sbi 0 ''abc'' TYPE_DEFAULT) ''/foo.txt'' ''/bar''
         (sim_kernel [] []))))) =
     [(''/mnt/runtime/read/abc/foo.txt'', ''/mnt/runtime/read/abc/bar''),
      (''/mnt/runtime/write/abc/foo.txt'', ''/mnt/runtime/write/abc/bar''),
      (''/storage/abc/foo.txt'', ''/storage/abc/bar'')]"
proof -
  have u: "unlink_allocs_ok sim_ops (sim_kernel [] [])"
    by (simp add: unlink_allocs_ok_def sim_defs)
  have r: "rename_allocs_ok sim_ops (sim_kernel [] [])"
    by (simp add: rename_allocs_ok_def sim_defs)
  have o: "type (options (sim_sbi 0 ''abc'' TYPE_DEFAULT)) = TYPE_DEFAULT"
    "label (options (sim_sbi 0 ''abc'' TYPE_DEFAULT)) = ''abc''"
    by (simp_all add: sim_sbi_def)
  show ?thesis
    using propagate_attempts_follow_table [where K = sim_ops and s = "sim_kernel [] []"
        and sbi = "sim_sbi 0 ''abc'' TYPE_DEFAULT" and p = "''/foo.txt''" and q = "''/bar''"] u r
    by (simp add: o spec_projections_def spec_prefixes_def PATH_MAX_def)
qed

text \<open>
  When the longest synthesised path fits into the buffer (the longest prefix has 21
  characters) nothing is cut, and every attempt operates on
  \<open>prefix + label + relative_path\<close>.
\<close>

lemma length_deep_path: "length deep_path = 4080"
  by (simp add: deep_path_def length_concat sum_list_replicate)

lemma map_take_fits:
  assumes "\<forall>x \<in> set xs. length x \<le> n"
  shows "map (take n) xs = xs"
  using assms by (induction xs) simp_all

lemma length_spec_projection:
  assumes "x \<in> set (spec_projections t l rel)"
  shows "length x \<le> 21 + length l + length rel"
  using assms by (auto simp add: spec_projections_def spec_prefixes_def split: if_splits)

lemma propagate_attempts_when_paths_fit:
  assumes "21 + length (label (options sbi)) + length p < PATH_MAX"
    and "21 + length (label (options sbi)) + length q < PATH_MAX"
  shows "unlink_allocs_ok K s \<longrightarrow>
      map fst (unlink_attempts (call_events s (snd (sdcardfs_propagate_unlink K sbi p s)))) =
      spec_projections (type (options sbi)) (label (options sbi)) p"
    and "rename_allocs_ok K s \<longrightarrow>
      map fst (rename_attempts (call_events s (snd (sdcardfs_propagate_rename K sbi p q s)))) =
      zip (spec_projections (type (options sbi)) (label (options sbi)) p)
          (spec_projections (type (options sbi)) (label (options sbi)) q)"
proof -
  have p: "map (take (PATH_MAX - 1)) (spec_projections (type (options sbi)) (label (options sbi)) p)
      = spec_projections (type (options sbi)) (label (options sbi)) p"
    using assms(1) length_spec_projection [of _ "type (options sbi)" "label (options sbi)" p]
    by (intro map_take_fits) fastforce
  have q: "map (take (PATH_MAX - 1)) (spec_projections (type (options sbi)) (label (options sbi)) q)
      = spec_projections (type (options sbi)) (label (options sbi)) q"
    using assms(2) length_spec_projection [of _ "type (options sbi)" "label (options sbi)" q]
    by (intro map_take_fits) fastforce
  show "unlink_allocs_ok K s \<longrightarrow>
      map fst (unlink_attempts (call_events s (snd (sdcardfs_propagate_unlink K sbi p s)))) =
      spec_projections (type (options sbi)) (label (options sbi)) p"
    using propagate_attempts_follow_table [of K s sbi p q] unfolding p q by blast
  show "rename_allocs_ok K s \<longrightarrow>
      map fst (rename_attempts (call_events s (snd (sdcardfs_propagate_rename K sbi p q s)))) =
      zip (spec_projections (type (options sbi)) (label (options sbi)) p)
          (spec_projections (type (options sbi)) (label (options sbi)) q)"
    using propagate_attempts_follow_table [of K s sbi p q] unfolding p q by blast
qed

text \<open>
  C1. The claim: when the allocations succeed, the prefixes attempted are those of the
  table, in its order, each operating on \<open>prefix + label + relative_path\<close>. The code builds
  each path with \<open>snprintf\<close> into a buffer of \<open>PATH_MAX\<close> bytes and never looks at the
  result of \<open>snprintf\<close>, so a path that does not fit is cut and the operation is made on
  the cut path. With label \<open>abc\<close>, type \<open>WRITE\<close> and the relative path \<open>deep_path\<close> of 4080
  characters, the prefixes are those of the table (default, read, storage), but the
  delete below \<open>/mnt/runtime/default/abc\<close> is given only the first 4071 characters of the
  relative path and the one below \<open>/mnt/runtime/read/abc\<close> only the first 4074: two other,
  shorter names. Only the path below \<open>/storage/abc\<close> fits and is the one of the claim.
\<close>

theorem propagate_unlink_truncates_long_path:
  "unlink_allocs_ok sim_ops (sim_kernel [] []) \<and>
   length deep_path = 4080 \<and>
   map fst (unlink_attempts (call_events (sim_kernel [] [])
      (snd (sdcardfs_propagate_unlink sim_ops (sim_sbi 0 ''abc'' TYPE_WRITE) deep_path
         (sim_kernel [] []))))) =
     [''/mnt/runtime/default/abc'' @ take 4071 deep_path,
      ''/mnt/runtime/read/abc'' @ take 4074 deep_path,
      ''/storage/abc'' @ deep_path] \<and>
   spec_projections TYPE_WRITE ''abc'' deep_path =
     [''/mnt/runtime/default/abc'' @ deep_path,
      ''/mnt/runtime/read/abc'' @ deep_path,
      ''/storage/abc'' @ deep_path] \<and>
   take 4071 deep_path \<noteq> deep_path \<and> take 4074 deep_path \<noteq> deep_path"
proof (intro conjI)
  show "unlink_allocs_ok sim_ops (sim_kernel [] [])"
    by (simp add: unlink_allocs_ok_def sim_defs)
  show "length deep_path = 4080"
    by (rule length_deep_path)
  show "map fst (unlink_attempts (call_events (sim_kernel [] [])
      (snd (sdcardfs_propagate_unlink sim_ops (sim_sbi 0 ''abc'' TYPE_WRITE) deep_path
         (sim_kernel [] []))))) =
     [''/mnt/runtime/default/abc'' @ take 4071 deep_path,
      ''/mnt/runtime/read/abc'' @ take 4074 deep_path,
      ''/storage/abc'' @ deep_path]"
    by (simp add: propagate_defs sim_defs snprintf_def PATH_MAX_def length_deep_path)
  show "spec_projections TYPE_WRITE ''abc'' deep_path =
     [''/mnt/runtime/default/abc'' @ deep_path,
      ''/mnt/runtime/read/abc'' @ deep_path,
      ''/storage/abc'' @ deep_path]"
    by (simp add: spec_projections_def spec_prefixes_def)
  have "length (take 4071 deep_path) \<noteq> length deep_path"
    by (simp add: length_deep_path)
  then show "take 4071 deep_path \<noteq> deep_path"
    by metis
  have "length (take 4074 deep_path) \<noteq> length deep_path"
    by (simp add: length_deep_path)
  then show "take 4074 deep_path \<noteq> deep_path"
    by metis
qed

text \<open>
  C2 (as amended). For every mount with type \<open>WRITE\<close>, a call to \<open>sdcardfs_propagate_unlink\<close>
  or \<open>sdcardfs_propagate_rename\<close> with successful allocations attempts exactly three
  projections, \<open>/mnt/runtime/default/<label>...\<close>, \<open>/mnt/runtime/read/<label>...\<close> and
  \<open>/storage/<label>...\<close> in this order, and skips only the \<open>/mnt/runtime/write/...\<close> prefix.
\<close>

theorem propagate_type_write_three_projections:
  assumes "type (options sbi) = TYPE_WRITE"
  shows "(unlink_allocs_ok K s \<longrightarrow>
      map fst (unlink_attempts (call_events s (snd (sdcardfs_propagate_unlink K sbi p s)))) =
      [snprintf PATH_MAX ''/mnt/runtime/default/'' (label (options sbi)) p,
       snprintf PATH_MAX ''/mnt/runtime/read/'' (label (options sbi)) p,
       snprintf PATH_MAX ''/storage/'' (label (options sbi)) p]) \<and>
   (rename_allocs_ok K s \<longrightarrow>
      map fst (rename_attempts (call_events s (snd (sdcardfs_propagate_rename K sbi p q s)))) =
      [(snprintf PATH_MAX ''/mnt/runtime/default/'' (label (options sbi)) p,
        snprintf PATH_MAX ''/mnt/runtime/default/'' (label (options sbi)) q),
       (snprintf PATH_MAX ''/mnt/runtime/read/'' (label (options sbi)) p,
        snprintf PATH_MAX ''/mnt/runtime/read/'' (label (options sbi)) q),
       (snprintf PATH_MAX ''/storage/'' (label (options sbi)) p,
        snprintf PATH_MAX ''/storage/'' (label (options sbi)) q)])"
proof (intro conjI impI)
  assume "unlink_allocs_ok K s"
  with assms
  show "map fst (unlink_attempts (call_events s (snd (sdcardfs_propagate_unlink K sbi p s)))) =
      [snprintf PATH_MAX ''/mnt/runtime/default/'' (label (options sbi)) p,
       snprintf PATH_MAX ''/mnt/runtime/read/'' (label (options sbi)) p,
       snprintf PATH_MAX ''/storage/'' (label (options sbi)) p]"
    by (simp add: propagate_defs unlink_allocs_ok_def split: option.splits)
next
  assume "rename_allocs_ok K s"
  with assms
  show "map fst (rename_attempts (call_events s (snd (sdcardfs_propagate_rename K sbi p q s)))) =
      [(snprintf PATH_MAX ''/mnt/runtime/default/'' (label (options sbi)) p,
        snprintf PATH_MAX ''/mnt/runtime/default/'' (label (options sbi)) q),
       (snprintf PATH_MAX ''/mnt/runtime/read/'' (label (options sbi)) p,
        snprintf PATH_MAX ''/mnt/runtime/read/'' (label (options sbi)) q),
       (snprintf PATH_MAX ''/storage/'' (label (options sbi)) p,
        snprintf PATH_MAX ''/storage/'' (label (options sbi)) q)]"
    by (simp add: propagate_defs rename_allocs_ok_def split: option.splits)
qed

theorem propagate_type_write_three_projections_witness:
  "map fst (unlink_attempts (call_events (sim_kernel [''/storage/abc/foo.txt''] [])
      (snd (sdcardfs_propagate_unlink sim_ops (sim_sbi 0 ''abc'' TYPE_WRITE) ''/foo.txt''
         (sim_kernel [''/storage/abc/foo.txt''] []))))) =
     [''/mnt/runtime/default/abc/foo.txt'', ''/mnt/runtime/read/abc/foo.txt'',
      ''/storage/abc/foo.txt''] \<and>
   map fst (rename_attempts (call_events (sim_kernel [''/storage/abc/foo.txt''] [])
      (snd (sdcardfs_propagate_rename sim_ops (sim_sbi 0 ''abc'' TYPE_WRITE) ''/foo.txt'' ''/bar''
         (sim_kernel [''/storage/abc/foo.txt''] []))))) =
     [(''/mnt/runtime/default/abc/foo.txt'', ''/mnt/runtime/default/abc/bar''),
      (''/mnt/runtime/read/abc/foo.txt'', ''/mnt/runtime/read/abc/bar''),
      (''/storage/abc/foo.txt'', ''/storage/abc/bar'')]"
proof -
  have t: "type (options (sim_sbi 0 ''abc'' TYPE_WRITE)) = TYPE_WRITE"
    by (simp add: sim_sbi_def)
  have u: "unlink_allocs_ok sim_ops (sim_kernel [''/storage/abc/foo.txt''] [])"
    by (simp add: unlink_allocs_ok_def sim_defs)
  have r: "rename_allocs_ok sim_ops (sim_kernel [''/storage/abc/foo.txt''] [])"
    by (simp add: rename_allocs_ok_def sim_defs)
  have l: "label (options (sim_sbi 0 ''abc'' TYPE_WRITE)) = ''abc''"
    by (simp add: sim_sbi_def)
  show ?thesis
    using propagate_type_write_three_projections [OF t, where K = sim_ops
        and s = "sim_kernel [''/storage/abc/foo.txt''] []"
        and p = "''/foo.txt''" and q = "''/bar''"] u r
    by (simp add: l snprintf_def PATH_MAX_def)
qed

text \<open>
  C2 as stated fails: with type \<open>WRITE\<close> and successful allocations the delete operations
  are not the two of the claim, and there are not two of them.
\<close>

theorem propagate_type_write_not_two_projections:
  "unlink_allocs_ok sim_ops (sim_kernel [''/storage/abc/foo.txt''] []) \<and>
   type (options (sim_sbi 0 ''abc'' TYPE_WRITE)) = TYPE_WRITE \<and>
   map fst (unlink_attempts (call_events (sim_kernel [''/storage/abc/foo.txt''] [])
      (snd (sdcardfs_propagate_unlink sim_ops (sim_sbi 0 ''abc'' TYPE_WRITE) ''/foo.txt''
         (sim_kernel [''/storage/abc/foo.txt''] []))))) \<noteq>
     [''/mnt/runtime/default/abc/foo.txt'', ''/storage/abc/foo.txt''] \<and>
   length (unlink_attempts (call_events (sim_kernel [''/storage/abc/foo.txt''] [])
      (snd (sdcardfs_propagate_unlink sim_ops (sim_sbi 0 ''abc'' TYPE_WRITE) ''/foo.txt''
         (sim_kernel [''/storage/abc/foo.txt''] []))))) \<noteq> 2"
  by (simp add: propagate_defs sim_defs unlink_allocs_ok_def snprintf_def PATH_MAX_def)

text \<open>
  C4. Whenever a call to \<open>sdcardfs_propagate_unlink\<close> or \<open>sdcardfs_propagate_rename\<close> attempts
  at least one projection, the status it returns is the status the delete or rename
  primitive returned for the last attempt. This holds for every behaviour of the
  primitives, so a failure of an earlier attempt neither stops the later ones (their
  number is fixed by the mount type) nor shows in the result.
\<close>

theorem propagate_returns_last_status:
  "(unlink_attempts (call_events s (snd (sdcardfs_propagate_unlink K sbi p s))) \<noteq> [] \<longrightarrow>
      fst (sdcardfs_propagate_unlink K sbi p s) =
      snd (last (unlink_attempts (call_events s (snd (sdcardfs_propagate_unlink K sbi p s)))))) \<and>
   (rename_attempts (call_events s (snd (sdcardfs_propagate_rename K sbi p q s))) \<noteq> [] \<longrightarrow>
      fst (sdcardfs_propagate_rename K sbi p q s) =
      snd (last (rename_attempts (call_events s (snd (sdcardfs_propagate_rename K sbi p q s)))))) \<and>
   (unlink_allocs_ok K s \<longrightarrow>
      length (unlink_attempts (call_events s (snd (sdcardfs_propagate_unlink K sbi p s)))) =
      length (spec_prefixes (type (options sbi)))) \<and>
   (rename_allocs_ok K s \<longrightarrow>
      length (rename_attempts (call_events s (snd (sdcardfs_propagate_rename K sbi p q s)))) =
      length (spec_prefixes (type (options sbi))))"
proof (intro conjI)
  show "unlink_attempts (call_events s (snd (sdcardfs_propagate_unlink K sbi p s))) \<noteq> [] \<longrightarrow>
      fst (sdcardfs_propagate_unlink K sbi p s) =
      snd (last (unlink_attempts (call_events s (snd (sdcardfs_propagate_unlink K sbi p s)))))"
    by (cases "type (options sbi)") (simp_all add: propagate_defs split: option.splits)
  show "rename_attempts (call_events s (snd (sdcardfs_propagate_rename K sbi p q s))) \<noteq> [] \<longrightarrow>
      fst (sdcardfs_propagate_rename K sbi p q s) =
      snd (last (rename_attempts (call_events s (snd (sdcardfs_propagate_rename K sbi p q s)))))"
    by (cases "type (options sbi)") (simp_all add: propagate_defs split: option.splits)
  show "unlink_allocs_ok K s \<longrightarrow>
      length (unlink_attempts (call_events s (snd (sdcardfs_propagate_unlink K sbi p s)))) =
      length (spec_prefixes (type (options sbi)))"
    by (cases "type (options sbi)")
      (simp_all add: propagate_defs unlink_allocs_ok_def spec_prefixes_def split: option.splits)
  show "rename_allocs_ok K s \<longrightarrow>
      length (rename_attempts (call_events s (snd (sdcardfs_propagate_rename K sbi p q s)))) =
      length (spec_prefixes (type (options sbi)))"
    by (cases "type (options sbi)")
      (simp_all add: propagate_defs rename_allocs_ok_def spec_prefixes_def split: option.splits)
qed

text \<open>
  A delete that fails on the first three views and succeeds on the last returns success;
  a rename that succeeds on the first view and fails on the last returns the failure.
\<close>

theorem propagate_returns_last_status_witness:
  "unlink_attempts (call_events (sim_kernel [''/storage/abc/foo.txt''] [])
      (snd (sdcardfs_propagate_unlink sim_ops (sim_sbi 0 ''abc'' TYPE_FULL) ''/foo.txt''
         (sim_kernel [''/storage/abc/foo.txt''] [])))) =
     [(''/mnt/runtime/default/abc/foo.txt'', - ENOENT), (''/mnt/runtime/read/abc/foo.txt'', - ENOENT),
      (''/mnt/runtime/write/abc/foo.txt'', - ENOENT), (''/storage/abc/foo.txt'', 0)] \<and>
   fst (sdcardfs_propagate_unlink sim_ops (sim_sbi 0 ''abc'' TYPE_FULL) ''/foo.txt''
         (sim_kernel [''/storage/abc/foo.txt''] [])) = 0 \<and>
   rename_attempts (call_events (sim_kernel [''/mnt/runtime/default/abc/foo.txt''] [])
      (snd (sdcardfs_propagate_rename sim_ops (sim_sbi 0 ''abc'' TYPE_READ) ''/foo.txt'' ''/bar''
         (sim_kernel [''/mnt/runtime/default/abc/foo.txt''] [])))) =
     [((''/mnt/runtime/default/abc/foo.txt'', ''/mnt/runtime/default/abc/bar''), 0),
      ((''/mnt/runtime/write/abc/foo.txt'', ''/mnt/runtime/write/abc/bar''), - ENOENT),
      ((''/storage/abc/foo.txt'', ''/storage/abc/bar''), - ENOENT)] \<and>
   fst (sdcardfs_propagate_rename sim_ops (sim_sbi 0 ''abc'' TYPE_READ) ''/foo.txt'' ''/bar''
         (sim_kernel [''/mnt/runtime/default/abc/foo.txt''] [])) = - ENOENT"
proof -
  have u: "unlink_attempts (call_events (sim_kernel [''/storage/abc/foo.txt''] [])
      (snd (sdcardfs_propagate_unlink sim_ops (sim_sbi 0 ''abc'' TYPE_FULL) ''/foo.txt''
         (sim_kernel [''/storage/abc/foo.txt''] [])))) =
     [(''/mnt/runtime/default/abc/foo.txt'', - ENOENT), (''/mnt/runtime/read/abc/foo.txt'', - ENOENT),
      (''/mnt/runtime/write/abc/foo.txt'', - ENOENT), (''/storage/abc/foo.txt'', 0)]"
    by (simp add: propagate_defs sim_defs snprintf_def PATH_MAX_def)
  have r: "rename_attempts (call_events (sim_kernel [''/mnt/runtime/default/abc/foo.txt''] [])
      (snd (sdcardfs_propagate_rename sim_ops (sim_sbi 0 ''abc'' TYPE_READ) ''/foo.txt'' ''/bar''
         (sim_kernel [''/mnt/runtime/default/abc/foo.txt''] [])))) =
     [((''/mnt/runtime/default/abc/foo.txt'', ''/mnt/runtime/default/abc/bar''), 0),
      ((''/mnt/runtime/write/abc/foo.txt'', ''/mnt/runtime/write/abc/bar''), - ENOENT),
      ((''/storage/abc/foo.txt'', ''/storage/abc/bar''), - ENOENT)]"
    by (simp add: propagate_defs sim_defs snprintf_def PATH_MAX_def)
  show ?thesis
    using propagate_returns_last_status [where K = sim_ops
        and s = "sim_kernel [''/storage/abc/foo.txt''] []"
        and sbi = "sim_sbi 0 ''abc'' TYPE_FULL" and p = "''/foo.txt''"]
      propagate_returns_last_status [where K = sim_ops
        and s = "sim_kernel [''/mnt/runtime/default/abc/foo.txt''] []"
        and sbi = "sim_sbi 0 ''abc'' TYPE_READ" and p = "''/foo.txt''" and q = "''/bar''"]
    by (simp add: u r)
qed

text \<open>
  C5. On every exit path of \<open>sdcardfs_propagate_unlink\<close> and \<open>sdcardfs_propagate_rename\<close>,
  whatever the allocator and the primitives answer, the credentials given to \<open>revert_fsids\<close>
  are exactly those obtained from \<open>override_fsids\<close>, and the buffers given to \<open>kfree\<close> are
  exactly those obtained from \<open>kmalloc\<close>: each is released once, none is released that was
  not obtained, and none is left when the call returns.
\<close>

theorem propagate_releases_resources:
  "creds_reverted (call_events s (snd (sdcardfs_propagate_unlink K sbi p s))) =
     creds_acquired (call_events s (snd (sdcardfs_propagate_unlink K sbi p s))) \<and>
   bufs_freed (call_events s (snd (sdcardfs_propagate_unlink K sbi p s))) =
     bufs_allocated (call_events s (snd (sdcardfs_propagate_unlink K sbi p s))) \<and>
   creds_reverted (call_events s (snd (sdcardfs_propagate_rename K sbi p q s))) =
     creds_acquired (call_events s (snd (sdcardfs_propagate_rename K sbi p q s))) \<and>
   bufs_freed (call_events s (snd (sdcardfs_propagate_rename K sbi p q s))) =
     bufs_allocated (call_events s (snd (sdcardfs_propagate_rename K sbi p q s)))"
  by (cases "type (options sbi)") (simp_all add: propagate_defs split: option.splits)

text \<open>
  C6 (as amended). For every mount with type \<open>NONE\<close>, \<open>sdcardfs_propagate_unlink\<close> and
  \<open>sdcardfs_propagate_rename\<close> perform no delete and no rename operation; they return 0 when
  the credential substitution and the buffer allocations succeed, and \<open>-ENOMEM\<close> when one of
  them fails.
\<close>

theorem propagate_type_none_no_operations:
  assumes "type (options sbi) = TYPE_NONE"
  shows "unlink_attempts (call_events s (snd (sdcardfs_propagate_unlink K sbi p s))) = [] \<and>
    rename_attempts (call_events s (snd (sdcardfs_propagate_unlink K sbi p s))) = [] \<and>
    fst (sdcardfs_propagate_unlink K sbi p s) = (if unlink_allocs_ok K s then 0 else - ENOMEM) \<and>
    unlink_attempts (call_events s (snd (sdcardfs_propagate_rename K sbi p q s))) = [] \<and>
    rename_attempts (call_events s (snd (sdcardfs_propagate_rename K sbi p q s))) = [] \<and>
    fst (sdcardfs_propagate_rename K sbi p q s) = (if rename_allocs_ok K s then 0 else - ENOMEM)"
  using assms
  by (simp add: propagate_defs unlink_allocs_ok_def rename_allocs_ok_def split: option.splits)

theorem propagate_type_none_no_operations_witness:
  "fst (sdcardfs_propagate_unlink sim_ops (sim_sbi 0 ''abc'' TYPE_NONE) ''/foo.txt''
     (sim_kernel [''/storage/abc/foo.txt''] [])) = 0 \<and>
   fst (sdcardfs_propagate_rename sim_ops (sim_sbi 0 ''abc'' TYPE_NONE) ''/foo.txt'' ''/bar''
     (sim_kernel [''/storage/abc/foo.txt''] [True, True, False])) = - ENOMEM"
proof -
  have t: "type (options (sim_sbi 0 ''abc'' TYPE_NONE)) = TYPE_NONE"
    by (simp add: sim_sbi_def)
  have u: "unlink_allocs_ok sim_ops (sim_kernel [''/storage/abc/foo.txt''] [])"
    by (simp add: unlink_allocs_ok_def sim_defs)
  have r: "\<not> rename_allocs_ok sim_ops (sim_kernel [''/storage/abc/foo.txt''] [True, True, False])"
    by (simp add: rename_allocs_ok_def sim_defs)
  show ?thesis
    using propagate_type_none_no_operations [OF t,
        where s = "sim_kernel [''/storage/abc/foo.txt''] []" and K = sim_ops
          and p = "''/foo.txt''"]
      propagate_type_none_no_operations [OF t,
        where s = "sim_kernel [''/storage/abc/foo.txt''] [True, True, False]"
          and K = sim_ops and p = "''/foo.txt''" and q = "''/bar''"]
      u r
    by simp
qed

text \<open>
  C6 as stated fails when \<open>override_fsids\<close> returns null: the mount type is \<open>NONE\<close> and the
  status is not 0.
\<close>

theorem propagate_type_none_enomem:
  "type (options (sim_sbi 0 ''abc'' TYPE_NONE)) = TYPE_NONE \<and>
   fst (sdcardfs_propagate_unlink sim_ops (sim_sbi 0 ''abc'' TYPE_NONE) ''/foo.txt''
     (sim_kernel [] [False])) \<noteq> 0"
  by (simp add: propagate_defs sim_defs ENOMEM_def)

section \<open>Stacked inodes\<close>

text \<open>
  C7. For a stacked inode bound to a backing inode \<open>l\<close>, \<open>sdcardfs_evict_inode\<close> clears the
  stored binding and calls \<open>iput\<close> once, on the reference \<open>l\<close> it read before clearing. Over
  eviction followed by \<open>sdcardfs_destroy_inode\<close> the number of releases of \<open>l\<close> grows by
  exactly one, and the sequence allocate, bind, evict, release makes exactly the three VFS
  calls of the eviction, the last of them \<open>iput\<close> of \<open>l\<close>.
\<close>

theorem evict_inode_releases_backing_once:
  assumes "objects c i = Some info" and "lower_inode info = Some l"
  shows "sdcardfs_lower_inode (sdcardfs_evict_inode i c) i = None \<and>
    vfs_calls (sdcardfs_evict_inode i c) =
      vfs_calls c @ [Truncate_inode_pages i, Clear_inode i, Iput (Some l)] \<and>
    count_list (vfs_calls (sdcardfs_destroy_inode i (sdcardfs_evict_inode i c))) (Iput (Some l)) =
      Suc (count_list (vfs_calls c) (Iput (Some l))) \<and>
    vfs_calls (sdcardfs_destroy_inode j (sdcardfs_evict_inode j
        (sdcardfs_set_lower_inode j (Some l) (snd (sdcardfs_alloc_inode (Some (j, raw)) c))))) =
      vfs_calls c @ [Truncate_inode_pages j, Clear_inode j, Iput (Some l)]"
  using assms by (simp add: inode_defs)

theorem evict_inode_releases_backing_once_witness:
  "sdcardfs_lower_inode (sdcardfs_evict_inode 5
      \<lparr>objects = [5 \<mapsto> \<lparr>lower_inode = Some 9, i_version = 1\<rparr>], vfs_calls = []\<rparr>) 5 = None \<and>
   vfs_calls (sdcardfs_evict_inode 5
      \<lparr>objects = [5 \<mapsto> \<lparr>lower_inode = Some 9, i_version = 1\<rparr>], vfs_calls = []\<rparr>) =
     [Truncate_inode_pages 5, Clear_inode 5, Iput (Some 9)]"
proof -
  have a: "objects \<lparr>objects = [5 \<mapsto> \<lparr>lower_inode = Some 9, i_version = 1\<rparr>], vfs_calls = []\<rparr> 5 =
      Some \<lparr>lower_inode = Some 9, i_version = 1\<rparr>"
    by simp
  have b: "lower_inode \<lparr>lower_inode = Some 9, i_version = 1\<rparr> = Some 9"
    by simp
  show ?thesis
    using evict_inode_releases_backing_once [OF a b] by simp
qed

section \<open>Remount\<close>

text \<open>
  C8. If the remount flags contain a bit outside read-only, mandatory-lock and silent,
  \<open>sdcardfs_remount_fs\<close> returns \<open>-EINVAL\<close>; if every bit of the flags is one of the three, it
  returns 0; in both cases the super block, and with it the mount options, is as before.
\<close>

theorem remount_fs_flag_whitelist:
  "((\<exists>n. bit flags n \<and> \<not> bit (MS_RDONLY OR MS_MANDLOCK OR MS_SILENT) n) \<longrightarrow>
      fst (sdcardfs_remount_fs sb flags opts) = - EINVAL) \<and>
   ((\<forall>n. bit flags n \<longrightarrow> bit (MS_RDONLY OR MS_MANDLOCK OR MS_SILENT) n) \<longrightarrow>
      fst (sdcardfs_remount_fs sb flags opts) = 0) \<and>
   fst (snd (sdcardfs_remount_fs sb flags opts)) = sb"
  using and_not_neq_0_iff [of flags "MS_RDONLY OR MS_MANDLOCK OR MS_SILENT"]
  by (auto simp add: sdcardfs_remount_fs_def)

theorem remount_fs_flag_whitelist_witness:
  "fst (sdcardfs_remount_fs \<lparr>s_fs_info = Some (sim_sbi 50 ''abc'' TYPE_DEFAULT)\<rparr>
      (MS_RDONLY OR 2) []) = - EINVAL \<and>
   fst (sdcardfs_remount_fs \<lparr>s_fs_info = Some (sim_sbi 50 ''abc'' TYPE_DEFAULT)\<rparr>
      (MS_RDONLY OR MS_SILENT) []) = 0"
proof -
  have a: "\<exists>n. bit (MS_RDONLY OR 2 :: u32) n \<and> \<not> bit (MS_RDONLY OR MS_MANDLOCK OR MS_SILENT) n"
    by (rule exI [of _ 1])
      (simp add: MS_RDONLY_def MS_MANDLOCK_def MS_SILENT_def bit_or_iff bit_numeral_simps)
  have b: "\<forall>n. bit (MS_RDONLY OR MS_SILENT) n \<longrightarrow> bit (MS_RDONLY OR MS_MANDLOCK OR MS_SILENT) n"
    by (simp add: bit_or_iff)
  show ?thesis
    using remount_fs_flag_whitelist [of "MS_RDONLY OR 2"
        "\<lparr>s_fs_info = Some (sim_sbi 50 ''abc'' TYPE_DEFAULT)\<rparr>" "[]"]
      remount_fs_flag_whitelist [of "MS_RDONLY OR MS_SILENT"
        "\<lparr>s_fs_info = Some (sim_sbi 50 ''abc'' TYPE_DEFAULT)\<rparr>" "[]"] a b
    by blast
qed

section \<open>The capacity reservation filter\<close>

text \<open>
  C3. The claim: with a reservation of \<open>R > 0\<close> MB and a block size \<open>B > 0\<close> the total is
  reduced by \<open>R * 1MiB / B\<close>, the available blocks are reduced by it and stop at zero, and the
  free blocks equal the available ones. At \<open>R = 4096\<close> and \<open>B = 4096\<close> the code does not do
  so: the product \<open>reserved_mb * 1024 * 1024\<close> wraps to 0 in \<open>unsigned int\<close>, \<open>min_blocks\<close> is 0
  where the reservation is 1048576 blocks, and total and available blocks are returned
  as the backing file system reported them.
\<close>

theorem statfs_reservation_wraps_at_4096_mb:
  "sdcardfs_statfs (sim_vfs_statfs 0 (sim_kstatfs 4096 8388608 4194304 4000000)) 7
      (sim_sbi 4096 ''abc'' TYPE_DEFAULT) (sim_kstatfs 0 0 0 0) =
     (0, \<lparr>f_type = 7, f_bsize = 4096, f_blocks = 8388608, f_bfree = 4000000,
          f_bavail = 4000000\<rparr>, []) \<and>
   spec_reserved_blocks 4096 4096 = 1048576 \<and>
   min_blocks_of 4096 4096 = 0"
  by (simp add: sdcardfs_statfs_def sim_vfs_statfs_def sim_kstatfs_def sim_sbi_def
        min_blocks_of_def c_div_long_def spec_reserved_blocks_def)

text \<open>
  C9. For every mount with \<open>reserved_mb > 0\<close>, if the backing statistics report a block
  size of 0, \<open>sdcardfs_statfs\<close> returns \<open>-EINVAL\<close>.
\<close>

theorem statfs_zero_block_size_einval:
  assumes "0 < reserved_mb (options sbi)" and "f_bsize (snd (vfs_statfs arg)) = 0"
  shows "fst (sdcardfs_statfs vfs_statfs magic sbi arg) = - EINVAL"
  using assms by (auto simp add: sdcardfs_statfs_def case_prod_beta word_gt_0)

theorem statfs_zero_block_size_einval_witness:
  "fst (sdcardfs_statfs (sim_vfs_statfs 0 (sim_kstatfs 0 1000 500 400)) 1
     (sim_sbi 50 ''abc'' TYPE_DEFAULT) (sim_kstatfs 0 0 0 0)) = - EINVAL"
proof -
  have a: "0 < reserved_mb (options (sim_sbi 50 ''abc'' TYPE_DEFAULT))"
    by (simp add: sim_sbi_def)
  have b: "f_bsize (snd (sim_vfs_statfs 0 (sim_kstatfs 0 1000 500 400) (sim_kstatfs 0 0 0 0))) = 0"
    by (simp add: sim_vfs_statfs_def sim_kstatfs_def)
  show ?thesis
    using statfs_zero_block_size_einval [where sbi = "sim_sbi 50 ''abc'' TYPE_DEFAULT"
        and vfs_statfs = "sim_vfs_statfs 0 (sim_kstatfs 0 1000 500 400)"
        and arg = "sim_kstatfs 0 0 0 0" and magic = 1, OF a b] .
qed

text \<open>
  C10. Let the backing query return the status \<open>err\<close> and the buffer \<open>buf\<close>. On the
  zero-block-size path (\<open>reserved_mb\<close> nonzero, block size 0) \<open>sdcardfs_statfs\<close> returns
  \<open>-EINVAL\<close> and the buffer as reported, \<open>f_type\<close> included. On every other path it returns
  \<open>err\<close>, also when the query failed, and \<open>f_type\<close> is the magic value of sdcardfs. When
  \<open>reserved_mb\<close> and the block size are nonzero the reservation is subtracted, whatever
  \<open>err\<close> is.
\<close>

theorem statfs_f_type_tagging:
  assumes "vfs_statfs arg = (err, buf)"
    and "sdcardfs_statfs vfs_statfs magic sbi arg = (ret, out, msgs)"
  shows "(reserved_mb (options sbi) \<noteq> 0 \<and> f_bsize buf = 0 \<longrightarrow>
      ret = - EINVAL \<and> out = buf) \<and>
    (\<not> (reserved_mb (options sbi) \<noteq> 0 \<and> f_bsize buf = 0) \<longrightarrow>
      ret = err \<and> f_type out = magic) \<and>
    (reserved_mb (options sbi) \<noteq> 0 \<and> f_bsize buf \<noteq> 0 \<longrightarrow>
      f_blocks out = f_blocks buf - ucast (min_blocks_of (reserved_mb (options sbi)) (f_bsize buf)) \<and>
      f_bavail out =
        (if ucast (min_blocks_of (reserved_mb (options sbi)) (f_bsize buf)) < f_bavail buf
         then f_bavail buf - ucast (min_blocks_of (reserved_mb (options sbi)) (f_bsize buf))
         else 0) \<and>
      f_bfree out = f_bavail out)"
  using assms by (auto simp add: sdcardfs_statfs_def Let_def split: if_splits)

text \<open>
  A failed query (status -5) with block size 4096 and 50 MB reserved: the status is passed
  on, 12800 blocks are subtracted and the buffer is tagged. A query reporting block size 0:
  \<open>-EINVAL\<close>, and the buffer keeps the type the backing file system reported.
\<close>

theorem statfs_f_type_tagging_witness:
  "sdcardfs_statfs (sim_vfs_statfs (- 5) (sim_kstatfs 4096 1000000 500000 400000)) 7
      (sim_sbi 50 ''abc'' TYPE_DEFAULT) (sim_kstatfs 0 0 0 0) =
     (- 5, \<lparr>f_type = 7, f_bsize = 4096, f_blocks = 987200, f_bfree = 387200,
            f_bavail = 387200\<rparr>, []) \<and>
   sdcardfs_statfs (sim_vfs_statfs 0 (sim_kstatfs 0 1000000 500000 400000)) 7
      (sim_sbi 50 ''abc'' TYPE_DEFAULT) (sim_kstatfs 0 0 0 0) =
     (- EINVAL, sim_kstatfs 0 1000000 500000 400000, [''Returned block size is zero.''])"
proof -
  have a: "sdcardfs_statfs (sim_vfs_statfs (- 5) (sim_kstatfs 4096 1000000 500000 400000)) 7
      (sim_sbi 50 ''abc'' TYPE_DEFAULT) (sim_kstatfs 0 0 0 0) =
     (- 5, \<lparr>f_type = 7, f_bsize = 4096, f_blocks = 987200, f_bfree = 387200,
            f_bavail = 387200\<rparr>, [])"
    by (simp add: sdcardfs_statfs_def sim_vfs_statfs_def sim_kstatfs_def sim_sbi_def
        min_blocks_of_def c_div_long_def signed_divide_int_def)
  have b: "sdcardfs_statfs (sim_vfs_statfs 0 (sim_kstatfs 0 1000000 500000 400000)) 7
      (sim_sbi 50 ''abc'' TYPE_DEFAULT) (sim_kstatfs 0 0 0 0) =
     (- EINVAL, sim_kstatfs 0 1000000 500000 400000, [''Returned block size is zero.''])"
    by (simp add: sdcardfs_statfs_def sim_vfs_statfs_def sim_kstatfs_def sim_sbi_def)
  have v1: "sim_vfs_statfs (- 5) (sim_kstatfs 4096 1000000 500000 400000) (sim_kstatfs 0 0 0 0) =
      (- 5, sim_kstatfs 4096 1000000 500000 400000)"
    by (simp add: sim_vfs_statfs_def)
  have v2: "sim_vfs_statfs 0 (sim_kstatfs 0 1000000 500000 400000) (sim_kstatfs 0 0 0 0) =
      (0, sim_kstatfs 0 1000000 500000 400000)"
    by (simp add: sim_vfs_statfs_def)
  show ?thesis
    using statfs_f_type_tagging [OF v1 a] statfs_f_type_tagging [OF v2 b] a b by simp
qed

end
